theory Spec2Isabelle
  imports Main "HOL-Library.Sublist"
begin

section \<open>Strings, environment variables and JavaScript values\<close>

text \<open>
  A JavaScript string is modelled by its UTF-8 byte sequence (\<open>string\<close>, a list of 8-bit
  characters). The messages of the server that are written in Chinese in the source are
  therefore spelled out byte by byte.
\<close>

type_synonym bytes = string

text \<open>\<^verbatim>\<open>x || d\<close> on an optional string: \<open>undefined\<close> and the empty string are falsy.\<close>

definition or_default :: "string option \<Rightarrow> string \<Rightarrow> string" where
  "or_default v d = (case v of None \<Rightarrow> d | Some s \<Rightarrow> if s = [] then d else s)"

text \<open>\<^verbatim>\<open>s.split(c)\<close> for a one-character separator: always at least one piece.\<close>

fun split_on :: "char \<Rightarrow> string \<Rightarrow> string list" where
  "split_on c [] = [[]]"
| "split_on c (x # xs) =
     (if x = c then [] # split_on c xs
      else (case split_on c xs of [] \<Rightarrow> [[x]] | w # ws \<Rightarrow> (x # w) # ws))"

text \<open>\<^verbatim>\<open>hay.includes(needle)\<close> on strings: \<open>needle\<close> occurs as a contiguous substring.\<close>

fun str_includes :: "string \<Rightarrow> string \<Rightarrow> bool" where
  "str_includes [] needle = (needle = [])"
| "str_includes (x # xs) needle = (prefix needle (x # xs) \<or> str_includes xs needle)"

text \<open>
  \<^verbatim>\<open>encodeURIComponent\<close> on a well-formed string: every byte of the UTF-8 encoding is kept
  when it is one of the unreserved characters \<^verbatim>\<open>A-Z a-z 0-9 - _ . ! ~ * ' ( )\<close> and is
  written as \<^verbatim>\<open>%XX\<close> (upper-case hexadecimal) otherwise.
\<close>

definition unreserved :: "char \<Rightarrow> bool" where
  "unreserved c =
     (c \<in> set (''ABCDEFGHIJKLMNOPQRSTUVWXYZabcdefghijklmnopqrstuvwxyz0123456789-_.!~*()''
                @ [CHR 0x27]))"

definition hex_digit :: "nat \<Rightarrow> char" where
  "hex_digit n = ''0123456789ABCDEF'' ! (n mod 16)"

definition encode_byte :: "char \<Rightarrow> string" where
  "encode_byte c =
     (if unreserved c then [c]
      else [CHR ''%'', hex_digit (of_char c div 16), hex_digit (of_char c mod 16)])"

definition encodeURIComponent :: "string \<Rightarrow> string" where
  "encodeURIComponent s = concat (map encode_byte s)"

text \<open>
  The values a parsed JSON document or a handler argument can take. Numbers are
  represented by integers: the code only ever tests a number for being zero.
\<close>

datatype jsval =
    JUndefined
  | JNull
  | JBool bool
  | JNum int
  | JStr string
  | JArr "jsval list"
  | JObj "(string \<times> jsval) list"

fun truthy :: "jsval \<Rightarrow> bool" where
  "truthy JUndefined = False"
| "truthy JNull = False"
| "truthy (JBool b) = b"
| "truthy (JNum n) = (n \<noteq> 0)"
| "truthy (JStr s) = (s \<noteq> [])"
| "truthy (JArr xs) = True"
| "truthy (JObj fs) = True"

text \<open>\<^verbatim>\<open>v.pipe\<close> on a parsed JSON value: only an object can carry such a property.\<close>

fun pipe_prop :: "jsval \<Rightarrow> jsval" where
  "pipe_prop (JObj fs) = (case map_of fs ''pipe'' of Some p \<Rightarrow> p | None \<Rightarrow> JUndefined)"
| "pipe_prop v = JUndefined"

text \<open>The environment variables read by the forwarding core.\<close>

record env =
  BLOCKED_HOSTS :: "string option"
  BLOCKED_IP_PREFIXES :: "string option"
  FILTERED_HEADERS :: "string option"

text \<open>
  \<^verbatim>\<open>config\<close>: \<open>maxRetries\<close> is the result of \<^verbatim>\<open>parseInt\<close>, an integer or \<open>NaN\<close>
  (\<open>None\<close>); \<open>port\<close> is kept as the text that is spliced into the loop-back address.
\<close>

record config =
  maxRetries :: "int option"
  port :: string

section \<open>URL validator\<close>

text \<open>
  The two fields of a WHATWG \<^verbatim>\<open>URL\<close> object that the validator reads. \<open>protocol\<close> carries
  the trailing colon (\<^verbatim>\<open>http:\<close>). The parser itself belongs to the platform and is a
  parameter of the model: \<open>None\<close> stands for the \<^verbatim>\<open>TypeError\<close> of \<^verbatim>\<open>new URL\<close>.
\<close>

record parsed_url =
  protocol :: string
  hostname :: string

definition blockedHostnames :: "env \<Rightarrow> string list" where
  "blockedHostnames e =
     split_on (CHR '','') (or_default (BLOCKED_HOSTS e) ''localhost,127.0.0.1,0.0.0.0,::1'')"

definition blockedPrefixes :: "env \<Rightarrow> string list" where
  "blockedPrefixes e =
     split_on (CHR '','') (or_default (BLOCKED_IP_PREFIXES e) ''192.168.,10.,172.'')"

text \<open>The \<^verbatim>\<open>for (const prefix of blockedPrefixes)\<close> loop: true when it returns early.\<close>

fun startsWith_blocked :: "string \<Rightarrow> string list \<Rightarrow> bool" where
  "startsWith_blocked h [] = False"
| "startsWith_blocked h (p # ps) = (if prefix p h then True else startsWith_blocked h ps)"

definition isValidUrl :: "(string \<Rightarrow> parsed_url option) \<Rightarrow> env \<Rightarrow> string \<Rightarrow> bool" where
  "isValidUrl URL e urlString =
     (case URL urlString of
        None \<Rightarrow> False
      | Some parsed \<Rightarrow>
          let allowedProtocols = [''http:'', ''https:'']
          in if protocol parsed \<notin> set allowedProtocols then False
             else if hostname parsed \<in> set (blockedHostnames e) then False
             else if startsWith_blocked (hostname parsed) (blockedPrefixes e) then False
             else True)"

section \<open>Header sanitizer\<close>

definition sensitiveHeaders :: "env \<Rightarrow> string list" where
  "sensitiveHeaders e =
     split_on (CHR '','')
       (or_default (FILTERED_HEADERS e)
          ''content-security-policy,cookie,set-cookie,x-frame-options,access-control-allow-origin'')"

text \<open>\<^verbatim>\<open>delete headers[header]\<close>: removes the property whose key is exactly \<open>header\<close>.\<close>

definition delete_key :: "'k \<Rightarrow> ('k \<rightharpoonup> 'v) \<Rightarrow> ('k \<rightharpoonup> 'v)" where
  "delete_key k m = m(k := None)"

text \<open>
  \<^verbatim>\<open>const headers = { ...response.headers }; sensitiveHeaders.forEach(header => delete headers[header])\<close>:
  the copy of the upstream header object after all deletions.
\<close>

definition sanitize :: "string list \<Rightarrow> (string \<rightharpoonup> 'v) \<Rightarrow> (string \<rightharpoonup> 'v)" where
  "sanitize filtered hs = fold delete_key filtered hs"

text \<open>
  The spec's notion of a case-insensitive comparison of header names, stated from its
  words to compare the code with: two names are the same when their lower-case forms are.
\<close>

definition lower_char :: "char \<Rightarrow> char" where
  "lower_char c =
     (case map_of (zip ''ABCDEFGHIJKLMNOPQRSTUVWXYZ'' ''abcdefghijklmnopqrstuvwxyz'') c of
        Some l \<Rightarrow> l
      | None \<Rightarrow> c)"

definition same_name_ci :: "string \<Rightarrow> string \<Rightarrow> bool" where
  "same_name_ci a b = (map lower_char a = map lower_char b)"

definition in_filter_ci :: "string list \<Rightarrow> string \<Rightarrow> bool" where
  "in_filter_ci filtered name = list_ex (same_name_ci name) filtered"

section \<open>Retrying fetcher\<close>

text \<open>
  What \<^verbatim>\<open>await axios(...)\<close> gives the handler. The promise resolves with a response
  (axios resolves for a 2xx status) or rejects with an error, which carries the upstream
  response when one was received (a status outside 2xx) and none for a transport or
  timeout failure. The type \<open>'d\<close> of \<open>data\<close> follows \<^verbatim>\<open>responseType\<close>: a parsed value
  (\<open>jsval\<close>) for \<^verbatim>\<open>json\<close>, the bytes carried by the stream object for \<^verbatim>\<open>stream\<close>.
\<close>

record 'd upstream_response =
  status :: nat
  headers :: "string \<rightharpoonup> string"
  data :: 'd

record 'd axios_error =
  message :: string
  response :: "'d upstream_response option"

type_synonym 'd attempt = "'d axios_error + 'd upstream_response"

text \<open>\<^verbatim>\<open>retries < maxRetries\<close>: a comparison with \<open>NaN\<close> is false.\<close>

fun js_lt :: "int \<Rightarrow> int option \<Rightarrow> bool" where
  "js_lt r None = False"
| "js_lt r (Some m) = (r < m)"

text \<open>
  \<^verbatim>\<open>makeRequest\<close>, with the closure variable \<open>retries\<close> and the number of requests issued
  so far passed explicitly. The upstream is an oracle \<open>axios\<close>: its argument is the number
  of requests issued before this one. The result is what the promise settles with (\<open>Inl\<close>
  a rejection), the final value of \<open>retries\<close> and the number of requests issued.
\<close>

function makeRequest ::
  "(nat \<Rightarrow> 'd attempt) \<Rightarrow> int option \<Rightarrow> int \<Rightarrow> nat \<Rightarrow> 'd attempt \<times> int \<times> nat" where
  "makeRequest axios maxR retries calls =
     (case axios calls of
        Inr resp \<Rightarrow> (Inr resp, retries, Suc calls)
      | Inl err \<Rightarrow>
          if js_lt retries maxR then makeRequest axios maxR (retries + 1) (Suc calls)
          else (Inl err, retries, Suc calls))"
  by pat_completeness auto
termination
  by (relation "measure (\<lambda>(a, m, r, c). case m of None \<Rightarrow> 0 | Some k \<Rightarrow> nat (k - r))")
     (auto elim: js_lt.elims)

declare makeRequest.simps [simp del]

section \<open>Response dispatcher\<close>

text \<open>
  The client response once the request is answered: the status code (200 until
  \<^verbatim>\<open>res.status\<close> is called, as for every Node response object), the headers the handler
  applied with \<^verbatim>\<open>res.set\<close>, and the value handed to the sink, tagged by the method that
  wrote it (\<^verbatim>\<open>res.send\<close>, \<^verbatim>\<open>res.json\<close> or a stream piped into the response).
  \<open>res_body = None\<close> means that nothing was written. The headers added by the CORS and
  security middleware are outside the forwarding core and are not tracked; the error
  middleware, which answers when a handler throws, is modelled below.
\<close>

datatype body = Sent jsval | Json jsval | Piped bytes

record client_response =
  statusCode :: nat
  res_headers :: "string \<rightharpoonup> string"
  res_body :: "body option"

definition res0 :: client_response where
  "res0 = \<lparr>statusCode = 200, res_headers = Map.empty, res_body = None\<rparr>"

definition res_status :: "nat \<Rightarrow> client_response \<Rightarrow> client_response" where
  "res_status n res = res\<lparr>statusCode := n\<rparr>"

definition res_set :: "(string \<rightharpoonup> string) \<Rightarrow> client_response \<Rightarrow> client_response" where
  "res_set hs res = res\<lparr>res_headers := res_headers res ++ hs\<rparr>"

definition res_send :: "jsval \<Rightarrow> client_response \<Rightarrow> client_response" where
  "res_send v res = res\<lparr>res_body := Some (Sent v)\<rparr>"

definition res_json :: "jsval \<Rightarrow> client_response \<Rightarrow> client_response" where
  "res_json v res = res\<lparr>res_body := Some (Json v)\<rparr>"

definition pipe :: "bytes \<Rightarrow> client_response \<Rightarrow> client_response" where
  "pipe bs res = res\<lparr>res_body := Some (Piped bs)\<rparr>"

text \<open>\<^verbatim>\<open>error.response.status || 500\<close>.\<close>

definition status_or_500 :: "nat \<Rightarrow> nat" where
  "status_or_500 n = (if n = 0 then 500 else n)"

text \<open>The fixed texts of the proxy route, as UTF-8 bytes.\<close>

definition invalid_url_text :: string where
  "invalid_url_text =
     [CHR 0xE6, CHR 0x97, CHR 0xA0, CHR 0xE6, CHR 0x95, CHR 0x88, CHR 0xE7, CHR 0x9A, CHR 0x84]
     @ '' URL''"

definition proxy_failed_text :: string where
  "proxy_failed_text =
     [CHR 0xE4, CHR 0xBB, CHR 0xA3, CHR 0xE7, CHR 0x90, CHR 0x86, CHR 0xE8, CHR 0xAF, CHR 0xB7,
      CHR 0xE6, CHR 0xB1, CHR 0x82, CHR 0xE5, CHR 0xA4, CHR 0xB1, CHR 0xE8, CHR 0xB4, CHR 0xA5]"

definition request_failed_prefix :: string where
  "request_failed_prefix =
     [CHR 0xE8, CHR 0xAF, CHR 0xB7, CHR 0xE6, CHR 0xB1, CHR 0x82, CHR 0xE5, CHR 0xA4, CHR 0xB1,
      CHR 0xE8, CHR 0xB4, CHR 0xA5] @ '': ''"

text \<open>
  The \<^verbatim>\<open>catch\<close> block of the proxy route. An error without \<open>response\<close> (a transport
  failure, or an exception of the handler itself) is answered by its message.
\<close>

definition catch_plain :: "string \<Rightarrow> client_response \<Rightarrow> client_response" where
  "catch_plain msg res = res_send (JStr (request_failed_prefix @ msg)) (res_status 500 res)"

text \<open>
  Stream mode: \<open>error.response.data\<close> is a stream object, which is truthy and has
  \<^verbatim>\<open>pipe\<close>.
\<close>

definition catch_stream :: "bytes axios_error \<Rightarrow> client_response \<Rightarrow> client_response" where
  "catch_stream error res =
     (case response error of
        Some r \<Rightarrow> pipe (data r) (res_status (status_or_500 (status r)) res)
      | None \<Rightarrow> catch_plain (message error) res)"

text \<open>
  The error middleware of the application, \<^verbatim>\<open>app.use((err, req, res, next) => ...)\<close>: it
  answers an exception that leaves a route handler with status 500 and a fixed text.
\<close>

definition server_error_text :: string where
  "server_error_text =
     [CHR 0xE6, CHR 0x9C, CHR 0x8D, CHR 0xE5, CHR 0x8A, CHR 0xA1, CHR 0xE5, CHR 0x99, CHR 0xA8,
      CHR 0xE5, CHR 0x86, CHR 0x85, CHR 0xE9, CHR 0x83, CHR 0xA8, CHR 0xE9, CHR 0x94, CHR 0x99,
      CHR 0xE8, CHR 0xAF, CHR 0xAF]"

definition error_middleware :: "client_response \<Rightarrow> client_response" where
  "error_middleware res = res_send (JStr server_error_text) (res_status 500 res)"

text \<open>
  JSON mode: \<open>error.response.data\<close> is a parsed value. When it is truthy and carries a
  truthy \<^verbatim>\<open>pipe\<close> property, the first branch sets the status and calls
  \<^verbatim>\<open>data.pipe(res)\<close>; no parsed value is callable, so the call throws a \<^verbatim>\<open>TypeError\<close>
  out of the \<^verbatim>\<open>catch\<close> block, the handler rejects, and the error middleware answers.
\<close>

definition catch_json :: "jsval axios_error \<Rightarrow> client_response \<Rightarrow> client_response" where
  "catch_json error res =
     (case response error of
        Some r \<Rightarrow>
          if truthy (data r) \<and> truthy (pipe_prop (data r))
          then error_middleware (res_status (status_or_500 (status r)) res)
          else res_send (if truthy (data r) then data r else JStr proxy_failed_text)
                 (res_status (status_or_500 (status r)) res)
      | None \<Rightarrow> catch_plain (message error) res)"

section \<open>The proxy route\<close>

text \<open>
  The inbound request: the route parameter and the \<^verbatim>\<open>Accept\<close> header. The outbound
  request that \<^verbatim>\<open>axios\<close> receives: \<open>responseType_json\<close> is true for \<^verbatim>\<open>responseType: 'json'\<close>
  and false for \<^verbatim>\<open>'stream'\<close>; the user agent and the timeout are constants of the
  configuration.
\<close>

record request =
  encodedUrl :: string
  accept :: "string option"

record axios_request =
  url :: string
  responseType_json :: bool
  accept_header :: string

definition isApi :: "string \<Rightarrow> request \<Rightarrow> bool" where
  "isApi targetUrl req =
     (str_includes targetUrl ''/api.php/provide/vod''
      \<or> (case accept req of None \<Rightarrow> False | Some a \<Rightarrow> str_includes a ''application/json''))"

definition axios_request_of :: "string \<Rightarrow> request \<Rightarrow> axios_request" where
  "axios_request_of targetUrl req =
     \<lparr>url = targetUrl,
      responseType_json = isApi targetUrl req,
      accept_header =
        or_default (accept req) (if isApi targetUrl req then ''application/json'' else ''*/*'')\<rparr>"

text \<open>
  \<^verbatim>\<open>app.get('/proxy/:encodedUrl')\<close>. Parameters of the platform: the URL parser, and
  \<^verbatim>\<open>decodeURIComponent\<close> (\<open>Inl\<close> the message of its \<^verbatim>\<open>URIError\<close>). The upstream is one
  oracle per response type. The result is the client response and the number of outbound
  requests issued.
\<close>

definition proxy_handler ::
  "(string \<Rightarrow> parsed_url option) \<Rightarrow> (string \<Rightarrow> string + string) \<Rightarrow> config \<Rightarrow> env \<Rightarrow>
   (axios_request \<Rightarrow> nat \<Rightarrow> jsval attempt) \<Rightarrow> (axios_request \<Rightarrow> nat \<Rightarrow> bytes attempt) \<Rightarrow>
   request \<Rightarrow> client_response \<times> nat" where
  "proxy_handler URL decodeURIComponent cfg e axios_json axios_stream req =
     (case decodeURIComponent (encodedUrl req) of
        Inl msg \<Rightarrow> (catch_plain msg res0, 0)
      | Inr targetUrl \<Rightarrow>
          if \<not> isValidUrl URL e targetUrl
          then (res_send (JStr invalid_url_text) (res_status 400 res0), 0)
          else
            let rq = axios_request_of targetUrl req
            in if isApi targetUrl req
               then (case makeRequest (axios_json rq) (maxRetries cfg) 0 0 of
                       (Inr resp, retries, calls) \<Rightarrow>
                         (res_json (data resp)
                            (res_set (sanitize (sensitiveHeaders e) (headers resp)) res0), calls)
                     | (Inl error, retries, calls) \<Rightarrow> (catch_json error res0, calls))
               else (case makeRequest (axios_stream rq) (maxRetries cfg) 0 0 of
                       (Inr resp, retries, calls) \<Rightarrow>
                         (pipe (data resp)
                            (res_set (sanitize (sensitiveHeaders e) (headers resp)) res0), calls)
                     | (Inl error, retries, calls) \<Rightarrow> (catch_stream error res0, calls)))"

section \<open>Aggregation routes\<close>

text \<open>
  The site registry \<^verbatim>\<open>API_SITES\<close> and the operation table \<^verbatim>\<open>API_CONFIG\<close> are loaded from
  a configuration script that is not among the sources; they are parameters. The code
  reads \<^verbatim>\<open>API_SITES.heimuer\<close> unconditionally, so the registry is a record with that
  entry and a map of the other names.
\<close>

record site =
  api :: string

record registry =
  heimuer :: site
  named :: "string \<rightharpoonup> site"

definition lookup_site :: "registry \<Rightarrow> string \<Rightarrow> site option" where
  "lookup_site sites name = (if name = ''heimuer'' then Some (heimuer sites) else named sites name)"

record api_config =
  search_path :: string
  detail_path :: string

text \<open>\<^verbatim>\<open>req.query\<close>: each parameter is absent (\<open>None\<close>) or a string.\<close>

record query =
  wd :: "string option"
  id_q :: "string option"
  source :: "string option"
  customApi :: "string option"

text \<open>\<^verbatim>\<open>const { wd = '' } = req.query\<close>: the default applies when the parameter is absent.\<close>

definition param_or_empty :: "string option \<Rightarrow> string" where
  "param_or_empty p = (case p of None \<Rightarrow> [] | Some v \<Rightarrow> v)"

text \<open>The truthiness of an optional string parameter, as in \<^verbatim>\<open>if (customApi)\<close>.\<close>

definition supplied :: "string option \<Rightarrow> bool" where
  "supplied p = (case p of None \<Rightarrow> False | Some v \<Rightarrow> v \<noteq> [])"

text \<open>\<^verbatim>\<open>source && API_SITES[source]\<close>: the registry entry, when there is one.\<close>

definition known_site :: "registry \<Rightarrow> query \<Rightarrow> site option" where
  "known_site sites q =
     (case source q of
        None \<Rightarrow> None
      | Some s \<Rightarrow> if s = [] then None else lookup_site sites s)"

definition search_apiUrl :: "registry \<Rightarrow> api_config \<Rightarrow> query \<Rightarrow> string" where
  "search_apiUrl sites acfg q =
     (let wd = param_or_empty (wd q)
      in if supplied (customApi q)
         then param_or_empty (customApi q) @ search_path acfg @ encodeURIComponent wd
         else (case known_site sites q of
                 Some st \<Rightarrow> api st @ search_path acfg @ encodeURIComponent wd
               | None \<Rightarrow> api (heimuer sites) @ search_path acfg @ encodeURIComponent wd))"

definition detail_apiUrl :: "registry \<Rightarrow> api_config \<Rightarrow> query \<Rightarrow> string" where
  "detail_apiUrl sites acfg q =
     (let id = param_or_empty (id_q q)
      in if supplied (customApi q)
         then param_or_empty (customApi q) @ detail_path acfg @ id
         else (case known_site sites q of
                 Some st \<Rightarrow> api st @ detail_path acfg @ id
               | None \<Rightarrow> api (heimuer sites) @ detail_path acfg @ id))"

text \<open>
  The base of the composed URL in the spec's words: the custom base if supplied, else the
  registry entry of the given site name if known, else the default entry.
\<close>

definition resolved_base :: "registry \<Rightarrow> query \<Rightarrow> string" where
  "resolved_base sites q =
     (if supplied (customApi q) then param_or_empty (customApi q)
      else (case known_site sites q of Some st \<Rightarrow> api st | None \<Rightarrow> api (heimuer sites)))"

text \<open>The address of the loop-back call: the proxy route of this server.\<close>

definition proxy_target :: "config \<Rightarrow> string \<Rightarrow> string" where
  "proxy_target cfg apiUrl =
     ''http://localhost:'' @ port cfg @ (''/proxy/'' @ encodeURIComponent apiUrl)"

definition api_failed_text :: string where
  "api_failed_text =
     ''API'' @ [CHR 0xE8, CHR 0x81, CHR 0x9A, CHR 0xE5, CHR 0x90, CHR 0x88, CHR 0xE5, CHR 0xA4,
                CHR 0xB1, CHR 0xE8, CHR 0xB4, CHR 0xA5]"

definition detail_failed_text :: string where
  "detail_failed_text =
     [CHR 0xE8, CHR 0xAF, CHR 0xA6, CHR 0xE6, CHR 0x83, CHR 0x85] @ ''API''
     @ [CHR 0xE5, CHR 0xA4, CHR 0xB1, CHR 0xE8, CHR 0xB4, CHR 0xA5]"

text \<open>\<^verbatim>\<open>{ code: 500, msg: ..., error: error.message }\<close>.\<close>

definition envelope :: "string \<Rightarrow> string \<Rightarrow> jsval" where
  "envelope msg err = JObj [(''code'', JNum 500), (''msg'', JStr msg), (''error'', JStr err)]"

text \<open>
  \<^verbatim>\<open>app.get('/api/search')\<close> and \<^verbatim>\<open>app.get('/api/detail')\<close>. The loop-back call
  \<^verbatim>\<open>axios.get\<close> is an oracle from the requested address to the response data or (\<open>Inl\<close>)
  the message of the error it rejects with. The result is the client response and the
  list of addresses requested.
\<close>

definition api_search ::
  "registry \<Rightarrow> api_config \<Rightarrow> config \<Rightarrow> (string \<Rightarrow> string + jsval) \<Rightarrow> query \<Rightarrow>
   client_response \<times> string list" where
  "api_search sites acfg cfg axios_get q =
     (let apiUrl = search_apiUrl sites acfg q;
          target = proxy_target cfg apiUrl
      in case axios_get target of
           Inr d \<Rightarrow> (res_json d res0, [target])
         | Inl msg \<Rightarrow> (res_json (envelope api_failed_text msg) (res_status 500 res0), [target]))"

definition api_detail ::
  "registry \<Rightarrow> api_config \<Rightarrow> config \<Rightarrow> (string \<Rightarrow> string + jsval) \<Rightarrow> query \<Rightarrow>
   client_response \<times> string list" where
  "api_detail sites acfg cfg axios_get q =
     (let apiUrl = detail_apiUrl sites acfg q;
          target = proxy_target cfg apiUrl
      in case axios_get target of
           Inr d \<Rightarrow> (res_json d res0, [target])
         | Inl msg \<Rightarrow> (res_json (envelope detail_failed_text msg) (res_status 500 res0), [target]))"

section \<open>Sample inputs\<close>

text \<open>
  Concrete inputs on which the theorems below are instantiated: the scenarios of the
  spec. \<open>sample_URL\<close> lists what the platform's URL parser returns on the addresses used;
  \<open>decode_plain\<close> is \<^verbatim>\<open>decodeURIComponent\<close> on text without escape sequences.
\<close>

definition default_env :: env where
  "default_env = \<lparr>BLOCKED_HOSTS = None, BLOCKED_IP_PREFIXES = None, FILTERED_HEADERS = None\<rparr>"

definition sample_config :: config where
  "sample_config = \<lparr>maxRetries = Some 2, port = ''8080''\<rparr>"

definition sample_URL :: "string \<Rightarrow> parsed_url option" where
  "sample_URL s =
     (if s = ''http://example.com/video.mp4''
      then Some \<lparr>protocol = ''http:'', hostname = ''example.com''\<rparr>
      else if s = ''http://example.com/api.php/provide/vod/?ac=list''
      then Some \<lparr>protocol = ''http:'', hostname = ''example.com''\<rparr>
      else if s = ''http://127.0.0.1/x''
      then Some \<lparr>protocol = ''http:'', hostname = ''127.0.0.1''\<rparr>
      else if s = ''http://192.168.1.1/''
      then Some \<lparr>protocol = ''http:'', hostname = ''192.168.1.1''\<rparr>
      else if s = ''ftp://example.com/f''
      then Some \<lparr>protocol = ''ftp:'', hostname = ''example.com''\<rparr>
      else None)"

definition decode_plain :: "string \<Rightarrow> string + string" where
  "decode_plain s = Inr s"

definition video_request :: request where
  "video_request = \<lparr>encodedUrl = ''http://example.com/video.mp4'', accept = None\<rparr>"

definition api_request :: request where
  "api_request =
     \<lparr>encodedUrl = ''http://example.com/api.php/provide/vod/?ac=list'', accept = None\<rparr>"

definition loopback_request :: request where
  "loopback_request = \<lparr>encodedUrl = ''http://127.0.0.1/x'', accept = None\<rparr>"

text \<open>An upstream that answers 206 with a cookie and a byte stream.\<close>

definition video_206 :: "axios_request \<Rightarrow> nat \<Rightarrow> bytes attempt" where
  "video_206 rq i =
     Inr \<lparr>status = 206,
          headers = [''content-type'' \<mapsto> ''video/mp4'', ''set-cookie'' \<mapsto> ''sid=1''],
          data = ''bytes''\<rparr>"

text \<open>Upstreams on which every request fails without a response.\<close>

definition json_down :: "axios_request \<Rightarrow> nat \<Rightarrow> jsval attempt" where
  "json_down rq i = Inl \<lparr>message = ''timeout of 5000ms exceeded'', response = None\<rparr>"

definition stream_down :: "axios_request \<Rightarrow> nat \<Rightarrow> bytes attempt" where
  "stream_down rq i = Inl \<lparr>message = ''timeout of 5000ms exceeded'', response = None\<rparr>"

text \<open>An upstream that fails twice and then answers 200.\<close>

definition third_time :: "nat \<Rightarrow> bytes attempt" where
  "third_time i =
     (if i < 2 then Inl \<lparr>message = ''socket hang up'', response = None\<rparr>
      else Inr \<lparr>status = 200, headers = Map.empty, data = ''ok''\<rparr>)"

text \<open>Upstreams that answer 404: with the JSON body \<open>0\<close>, with a JSON object, and with a stream.\<close>

definition json_404_zero :: "axios_request \<Rightarrow> nat \<Rightarrow> jsval attempt" where
  "json_404_zero rq i =
     Inl \<lparr>message = ''Request failed with status code 404'',
          response = Some \<lparr>status = 404, headers = Map.empty, data = JNum 0\<rparr>\<rparr>"

definition json_404_object :: "axios_request \<Rightarrow> nat \<Rightarrow> jsval attempt" where
  "json_404_object rq i =
     Inl \<lparr>message = ''Request failed with status code 404'',
          response = Some \<lparr>status = 404, headers = Map.empty,
                           data = JObj [(''msg'', JStr ''not found'')]\<rparr>\<rparr>"

definition stream_404 :: "axios_request \<Rightarrow> nat \<Rightarrow> bytes attempt" where
  "stream_404 rq i =
     Inl \<lparr>message = ''Request failed with status code 404'',
          response = Some \<lparr>status = 404, headers = Map.empty, data = ''gone''\<rparr>\<rparr>"

definition json_201 :: "axios_request \<Rightarrow> nat \<Rightarrow> jsval attempt" where
  "json_201 rq i =
     Inr \<lparr>status = 201, headers = [''set-cookie'' \<mapsto> ''sid=1''],
          data = JObj [(''code'', JNum 1)]\<rparr>"

definition json_404_pipe :: "axios_request \<Rightarrow> nat \<Rightarrow> jsval attempt" where
  "json_404_pipe rq i =
     Inl \<lparr>message = ''Request failed with status code 404'',
          response = Some \<lparr>status = 404, headers = Map.empty,
                           data = JObj [(''pipe'', JBool True)]\<rparr>\<rparr>"

text \<open>A deployment whose header filter list is configured in mixed case.\<close>

definition mixed_case_env :: env where
  "mixed_case_env =
     \<lparr>BLOCKED_HOSTS = None, BLOCKED_IP_PREFIXES = None, FILTERED_HEADERS = Some ''Set-Cookie''\<rparr>"

text \<open>A registry, an operation table and loop-back oracles for the aggregation routes.\<close>

definition sample_sites :: registry where
  "sample_sites =
     \<lparr>heimuer = \<lparr>api = ''https://h.example''\<rparr>,
      named = [''other'' \<mapsto> \<lparr>api = ''https://o.example''\<rparr>]\<rparr>"

definition sample_api_config :: api_config where
  "sample_api_config = \<lparr>search_path = ''/vod/?wd='', detail_path = ''/vod/?ids=''\<rparr>"

definition no_params :: query where
  "no_params = \<lparr>wd = None, id_q = None, source = None, customApi = None\<rparr>"

definition detail_query :: query where
  "detail_query = \<lparr>wd = None, id_q = Some ''1&ac=list'', source = None, customApi = None\<rparr>"

definition loopback_down :: "string \<Rightarrow> string + jsval" where
  "loopback_down target = Inl ''connect ECONNREFUSED 127.0.0.1:8080''"

definition loopback_up :: "string \<Rightarrow> string + jsval" where
  "loopback_up target = Inr (JObj [(''code'', JNum 200)])"

section \<open>Properties of the URL validator\<close>

lemma startsWith_blocked_iff: "startsWith_blocked h ps \<longleftrightarrow> (\<exists>p\<in>set ps. prefix p h)"
  by (induction ps) auto

lemma blockedHostnames_default:
  "blockedHostnames default_env = [''localhost'', ''127.0.0.1'', ''0.0.0.0'', ''::1'']"
  by (simp add: blockedHostnames_def default_env_def or_default_def)

lemma blockedPrefixes_default: "blockedPrefixes default_env = [''192.168.'', ''10.'', ''172.'']"
  by (simp add: blockedPrefixes_def default_env_def or_default_def)

text \<open>
  Claim C1. For every input string, \<open>isValidUrl\<close> returns false exactly when the string
  does not parse as an absolute URL, or its scheme is neither \<^verbatim>\<open>http\<close> nor \<^verbatim>\<open>https\<close>, or
  its hostname is an entry of the denied hostnames, or its hostname starts with an entry
  of the denied prefixes; consequently it returns true for every \<^verbatim>\<open>http\<close>/\<^verbatim>\<open>https\<close> URL
  whose hostname is neither denied nor prefix-denied. A parse failure is the ordinary
  result \<open>False\<close>: the function is total. The statement holds for every URL parser, every
  configured deny list and every input.
\<close>

theorem isValidUrl_spec:
  "(\<not> isValidUrl URL e s \<longleftrightarrow>
      (URL s = None \<or>
       (\<exists>u. URL s = Some u \<and>
          (protocol u \<notin> {''http:'', ''https:''} \<or>
           hostname u \<in> set (blockedHostnames e) \<or>
           (\<exists>p\<in>set (blockedPrefixes e). prefix p (hostname u))))))
   \<and> (\<forall>u. URL s = Some u \<and> protocol u \<in> {''http:'', ''https:''} \<and>
          hostname u \<notin> set (blockedHostnames e) \<and>
          \<not> (\<exists>p\<in>set (blockedPrefixes e). prefix p (hostname u))
        \<longrightarrow> isValidUrl URL e s)"
  by (cases "URL s") (auto simp: isValidUrl_def startsWith_blocked_iff)

theorem isValidUrl_spec_witness:
  "isValidUrl sample_URL default_env ''http://example.com/video.mp4''
   \<and> \<not> isValidUrl sample_URL default_env ''http://127.0.0.1/x''
   \<and> \<not> isValidUrl sample_URL default_env ''http://192.168.1.1/''
   \<and> \<not> isValidUrl sample_URL default_env ''ftp://example.com/f''
   \<and> \<not> isValidUrl sample_URL default_env ''not a url''"
  using isValidUrl_spec [of sample_URL default_env "''http://example.com/video.mp4''"]
    isValidUrl_spec [of sample_URL default_env "''http://127.0.0.1/x''"]
    isValidUrl_spec [of sample_URL default_env "''http://192.168.1.1/''"]
    isValidUrl_spec [of sample_URL default_env "''ftp://example.com/f''"]
    isValidUrl_spec [of sample_URL default_env "''not a url''"]
  by (simp add: sample_URL_def blockedHostnames_default blockedPrefixes_default)

section \<open>Properties of the retrying fetcher\<close>

lemma makeRequest_success:
  "axios c = Inr resp \<Longrightarrow> makeRequest axios mx r c = (Inr resp, r, Suc c)"
  by (simp add: makeRequest.simps)

lemma makeRequest_retry:
  "axios c = Inl err \<Longrightarrow> r < m \<Longrightarrow>
     makeRequest axios (Some m) r c = makeRequest axios (Some m) (r + 1) (Suc c)"
  by (simp add: makeRequest.simps)

lemma makeRequest_give_up:
  "axios c = Inl err \<Longrightarrow> \<not> js_lt r mx \<Longrightarrow> makeRequest axios mx r c = (Inl err, r, Suc c)"
  by (simp add: makeRequest.simps)

text \<open>A run of \<open>j\<close> failing requests within the budget is skipped over.\<close>

lemma makeRequest_skip_failures:
  "(\<And>i. c \<le> i \<Longrightarrow> i < c + j \<Longrightarrow> isl (axios i)) \<Longrightarrow> r + int j \<le> m \<Longrightarrow>
     makeRequest axios (Some m) r c = makeRequest axios (Some m) (r + int j) (c + j)"
proof (induction j arbitrary: r c)
  case 0
  then show ?case by simp
next
  case (Suc j)
  have "isl (axios c)" using Suc.prems(1) [of c] by simp
  then obtain err where e: "axios c = Inl err" by (cases "axios c") auto
  have step: "makeRequest axios (Some m) r c = makeRequest axios (Some m) (r + 1) (Suc c)"
    using e Suc.prems(2) by (intro makeRequest_retry) auto
  have "makeRequest axios (Some m) (r + 1) (Suc c)
          = makeRequest axios (Some m) (r + 1 + int j) (Suc c + j)"
    using Suc.prems by (intro Suc.IH) auto
  moreover have "r + 1 + int j = r + int (Suc j)" and "Suc c + j = c + Suc j" by simp_all
  ultimately show ?case using step by (simp only:)
qed

text \<open>
  Claim C2. For every non-negative \<open>maxRetries\<close> \<open>m\<close>: if every attempt fails, the fetcher
  issues exactly \<open>m + 1\<close> requests and surfaces the failure of the last one; if the
  attempts before the \<open>k + 1\<close>-th fail and the \<open>k + 1\<close>-th succeeds, with \<open>k + 1 \<le> m + 1\<close>,
  the fetcher returns that success after exactly \<open>k + 1\<close> requests. Attempts are counted
  from zero in the oracle; the third component of the result is the number of requests.
\<close>

theorem makeRequest_attempts:
  assumes "0 \<le> m"
  shows "((\<forall>i\<le>nat m. isl (axios i)) \<longrightarrow>
            makeRequest axios (Some m) 0 0 = (axios (nat m), m, nat m + 1))
         \<and> (k \<le> nat m \<and> (\<forall>i<k. isl (axios i)) \<and> axios k = Inr resp \<longrightarrow>
               makeRequest axios (Some m) 0 0 = (Inr resp, int k, k + 1))"
proof (intro conjI impI)
  assume all: "\<forall>i\<le>nat m. isl (axios i)"
  have "makeRequest axios (Some m) 0 0 = makeRequest axios (Some m) (0 + int (nat m)) (0 + nat m)"
    using all assms by (intro makeRequest_skip_failures) auto
  moreover obtain err where "axios (nat m) = Inl err"
    using all by (cases "axios (nat m)") auto
  ultimately show "makeRequest axios (Some m) 0 0 = (axios (nat m), m, nat m + 1)"
    using assms by (simp add: makeRequest_give_up)
next
  assume h: "k \<le> nat m \<and> (\<forall>i<k. isl (axios i)) \<and> axios k = Inr resp"
  have "makeRequest axios (Some m) 0 0 = makeRequest axios (Some m) (0 + int k) (0 + k)"
    using h assms by (intro makeRequest_skip_failures) auto
  then show "makeRequest axios (Some m) 0 0 = (Inr resp, int k, k + 1)"
    using h by (simp add: makeRequest_success)
qed

theorem makeRequest_attempts_witness:
  "makeRequest third_time (Some 2) 0 0
     = (Inr \<lparr>status = 200, headers = Map.empty, data = ''ok''\<rparr>, 2, 3)
   \<and> makeRequest (stream_down (axios_request_of ''http://example.com/video.mp4'' video_request))
         (Some 2) 0 0
       = (Inl \<lparr>message = ''timeout of 5000ms exceeded'', response = None\<rparr>, 2, 3)"
proof -
  let ?ok = "\<lparr>status = 200, headers = Map.empty, data = ''ok''\<rparr> :: bytes upstream_response"
  let ?down = "stream_down (axios_request_of ''http://example.com/video.mp4'' video_request)"
  have fails: "\<forall>i<2. isl (third_time i)" by (simp add: third_time_def)
  have succeeds: "third_time 2 = Inr ?ok" by (simp add: third_time_def)
  have down: "\<forall>i\<le>nat 2. isl (?down i)" by (simp add: stream_down_def)
  have "makeRequest third_time (Some 2) 0 0 = (Inr ?ok, 2, 3)"
    using makeRequest_attempts [of 2 third_time 2 ?ok] fails succeeds by simp
  moreover have "makeRequest ?down (Some 2) 0 0 = (?down (nat 2), 2, nat 2 + 1)"
    using makeRequest_attempts [of 2 ?down 0 ?ok] down by simp
  ultimately show ?thesis by (simp add: stream_down_def)
qed

section \<open>Properties of the header sanitizer\<close>

lemma sanitize_apply: "sanitize filtered hs name = (if name \<in> set filtered then None else hs name)"
  unfolding sanitize_def
  by (induction filtered arbitrary: hs) (auto simp: delete_key_def)

lemma sensitiveHeaders_default:
  "sensitiveHeaders default_env =
     [''content-security-policy'', ''cookie'', ''set-cookie'', ''x-frame-options'',
      ''access-control-allow-origin'']"
  by (simp add: sensitiveHeaders_def default_env_def or_default_def)

lemma sensitiveHeaders_mixed: "sensitiveHeaders mixed_case_env = [''Set-Cookie'']"
  by (simp add: sensitiveHeaders_def mixed_case_env_def or_default_def)

text \<open>
  Claim C5, as amended. For every upstream header map and every filter list, \<open>sanitize\<close>
  removes exactly the headers whose name is equal, character by character, to an entry of
  the filter list; every other header is present in the result with its value unchanged.
  The comparison is that of \<^verbatim>\<open>delete headers[header]\<close>: it is case-sensitive.
\<close>

theorem sanitize_exact_names:
  "sanitize filtered hs name = (if name \<in> set filtered then None else hs name)"
  by (rule sanitize_apply)

text \<open>
  Claim C5 as stated fails: with the filter list configured as \<^verbatim>\<open>Set-Cookie\<close>, the
  upstream header \<^verbatim>\<open>set-cookie\<close> is in the filter list under case-insensitive comparison
  and is still present after sanitizing.
\<close>

theorem sanitize_case_sensitive_counterexample:
  "in_filter_ci (sensitiveHeaders mixed_case_env) ''set-cookie''
   \<and> sanitize (sensitiveHeaders mixed_case_env) [''set-cookie'' \<mapsto> ''sid=1''] ''set-cookie''
       = Some ''sid=1''"
  by (simp add: sensitiveHeaders_mixed in_filter_ci_def same_name_ci_def lower_char_def
      sanitize_def delete_key_def)

section \<open>Properties of the proxy route\<close>

subsection \<open>Sample requests\<close>

lemma video_valid: "isValidUrl sample_URL default_env ''http://example.com/video.mp4''"
  by (simp add: isValidUrl_def sample_URL_def blockedHostnames_default blockedPrefixes_default)

lemma api_valid:
  "isValidUrl sample_URL default_env ''http://example.com/api.php/provide/vod/?ac=list''"
  by (simp add: isValidUrl_def sample_URL_def blockedHostnames_default blockedPrefixes_default)

lemma loopback_invalid: "\<not> isValidUrl sample_URL default_env ''http://127.0.0.1/x''"
  by (simp add: isValidUrl_def sample_URL_def blockedHostnames_default blockedPrefixes_default)

lemma video_not_api: "\<not> isApi ''http://example.com/video.mp4'' video_request"
  by (simp add: isApi_def video_request_def)

lemma api_is_api: "isApi ''http://example.com/api.php/provide/vod/?ac=list'' api_request"
  by (simp add: isApi_def api_request_def)

lemma video_encoded: "encodedUrl video_request = ''http://example.com/video.mp4''"
  by (simp add: video_request_def)

lemma api_encoded:
  "encodedUrl api_request = ''http://example.com/api.php/provide/vod/?ac=list''"
  by (simp add: api_request_def)

lemma loopback_encoded: "encodedUrl loopback_request = ''http://127.0.0.1/x''"
  by (simp add: loopback_request_def)

lemma sample_maxRetries: "maxRetries sample_config = Some 2"
  by (simp add: sample_config_def)

lemma json_404_zero_fetch:
  "makeRequest (json_404_zero rq) (Some 2) 0 0
     = (Inl \<lparr>message = ''Request failed with status code 404'',
              response = Some \<lparr>status = 404, headers = Map.empty, data = JNum 0\<rparr>\<rparr>, 2, 3)"
  by (simp add: makeRequest.simps json_404_zero_def)

lemma json_404_pipe_fetch:
  "makeRequest (json_404_pipe rq) (Some 2) 0 0
     = (Inl \<lparr>message = ''Request failed with status code 404'',
              response = Some \<lparr>status = 404, headers = Map.empty,
                               data = JObj [(''pipe'', JBool True)]\<rparr>\<rparr>, 2, 3)"
  by (simp add: makeRequest.simps json_404_pipe_def)

lemma json_404_object_fetch:
  "makeRequest (json_404_object rq) (Some 2) 0 0
     = (Inl \<lparr>message = ''Request failed with status code 404'',
              response = Some \<lparr>status = 404, headers = Map.empty,
                               data = JObj [(''msg'', JStr ''not found'')]\<rparr>\<rparr>, 2, 3)"
  by (simp add: makeRequest.simps json_404_object_def)

lemma stream_404_fetch:
  "makeRequest (stream_404 rq) (Some 2) 0 0
     = (Inl \<lparr>message = ''Request failed with status code 404'',
              response = Some \<lparr>status = 404, headers = Map.empty, data = ''gone''\<rparr>\<rparr>, 2, 3)"
  by (simp add: makeRequest.simps stream_404_def)

subsection \<open>The branches of the handler\<close>

lemma res_set_res0: "res_set hs res0 = \<lparr>statusCode = 200, res_headers = hs, res_body = None\<rparr>"
  by (simp add: res_set_def res0_def)

lemma catch_plain_res0:
  "catch_plain msg res0
     = \<lparr>statusCode = 500, res_headers = Map.empty,
        res_body = Some (Sent (JStr (request_failed_prefix @ msg)))\<rparr>"
  by (simp add: catch_plain_def res_send_def res_status_def res0_def)

lemma proxy_handler_invalid:
  assumes "decodeURIComponent (encodedUrl req) = Inr t" and "\<not> isValidUrl URL e t"
  shows "proxy_handler URL decodeURIComponent cfg e axios_json axios_stream req
           = (\<lparr>statusCode = 400, res_headers = Map.empty,
               res_body = Some (Sent (JStr invalid_url_text))\<rparr>, 0)"
  using assms by (simp add: proxy_handler_def res_send_def res_status_def res0_def)

lemma proxy_handler_stream_ok:
  assumes "decodeURIComponent (encodedUrl req) = Inr t"
    and "isValidUrl URL e t"
    and "\<not> isApi t req"
    and "makeRequest (axios_stream (axios_request_of t req)) (maxRetries cfg) 0 0
           = (Inr resp, r, n)"
  shows "proxy_handler URL decodeURIComponent cfg e axios_json axios_stream req
           = (\<lparr>statusCode = 200,
               res_headers = sanitize (sensitiveHeaders e) (headers resp),
               res_body = Some (Piped (data resp))\<rparr>, n)"
  using assms by (simp add: proxy_handler_def res_set_res0 pipe_def)

lemma proxy_handler_json_transport:
  assumes "decodeURIComponent (encodedUrl req) = Inr t" and "isValidUrl URL e t"
    and "isApi t req"
    and "makeRequest (axios_json (axios_request_of t req)) (maxRetries cfg) 0 0
           = (Inl \<lparr>message = msg, response = None\<rparr>, r, n)"
  shows "proxy_handler URL decodeURIComponent cfg e axios_json axios_stream req
           = (\<lparr>statusCode = 500, res_headers = Map.empty,
               res_body = Some (Sent (JStr (request_failed_prefix @ msg)))\<rparr>, n)"
  using assms by (simp add: proxy_handler_def catch_json_def catch_plain_res0)

lemma proxy_handler_stream_transport:
  assumes "decodeURIComponent (encodedUrl req) = Inr t" and "isValidUrl URL e t"
    and "\<not> isApi t req"
    and "makeRequest (axios_stream (axios_request_of t req)) (maxRetries cfg) 0 0
           = (Inl \<lparr>message = msg, response = None\<rparr>, r, n)"
  shows "proxy_handler URL decodeURIComponent cfg e axios_json axios_stream req
           = (\<lparr>statusCode = 500, res_headers = Map.empty,
               res_body = Some (Sent (JStr (request_failed_prefix @ msg)))\<rparr>, n)"
  using assms by (simp add: proxy_handler_def catch_stream_def catch_plain_res0)

lemma proxy_handler_json_fault:
  assumes "decodeURIComponent (encodedUrl req) = Inr t" and "isValidUrl URL e t"
    and "isApi t req"
    and "makeRequest (axios_json (axios_request_of t req)) (maxRetries cfg) 0 0 = (Inl err, r, n)"
    and "response err = Some up"
  shows "fst (proxy_handler URL decodeURIComponent cfg e axios_json axios_stream req)
           = (if truthy (data up) \<and> truthy (pipe_prop (data up))
              then \<lparr>statusCode = 500, res_headers = Map.empty,
                    res_body = Some (Sent (JStr server_error_text))\<rparr>
              else \<lparr>statusCode = status_or_500 (status up), res_headers = Map.empty,
                    res_body = Some (Sent (if truthy (data up) then data up
                                           else JStr proxy_failed_text))\<rparr>)"
  using assms
  by (simp add: proxy_handler_def catch_json_def error_middleware_def res_send_def
      res_status_def res0_def)

text \<open>
  The duck-typed stream test on a parsed body: an upstream 404 whose JSON body is
  \<^verbatim>\<open>{"pipe": true}\<close> is answered by the error middleware.
\<close>

lemma proxy_handler_pipe_property:
  "fst (proxy_handler sample_URL decode_plain sample_config default_env
          json_404_pipe stream_down api_request)
     = \<lparr>statusCode = 500, res_headers = Map.empty,
        res_body = Some (Sent (JStr server_error_text))\<rparr>"
proof -
  have dec: "decode_plain (encodedUrl api_request)
               = Inr ''http://example.com/api.php/provide/vod/?ac=list''"
    by (simp add: decode_plain_def api_encoded)
  show ?thesis
    using proxy_handler_json_fault
            [where decodeURIComponent = decode_plain and req = api_request
               and axios_json = json_404_pipe and axios_stream = stream_down
               and cfg = sample_config, OF dec api_valid api_is_api]
    by (simp add: sample_maxRetries json_404_pipe_fetch)
qed

lemma proxy_handler_stream_fault:
  assumes "decodeURIComponent (encodedUrl req) = Inr t" and "isValidUrl URL e t"
    and "\<not> isApi t req"
    and "makeRequest (axios_stream (axios_request_of t req)) (maxRetries cfg) 0 0 = (Inl err, r, n)"
    and "response err = Some up"
  shows "fst (proxy_handler URL decodeURIComponent cfg e axios_json axios_stream req)
           = \<lparr>statusCode = status_or_500 (status up), res_headers = Map.empty,
              res_body = Some (Piped (data up))\<rparr>"
  using assms
  by (simp add: proxy_handler_def catch_stream_def pipe_def res_status_def res0_def)

text \<open>When no request can succeed, the fetcher ends with the error of its last request.\<close>

lemma makeRequest_all_fail:
  "(\<forall>i. isl (axios i)) \<Longrightarrow>
     \<exists>i err r'. makeRequest axios mx r c = (Inl err, r', Suc i) \<and> axios i = Inl err"
proof (induction axios mx r c rule: makeRequest.induct)
  case (1 axios maxR retries calls)
  from "1.prems" obtain err where e: "axios calls = Inl err"
    by (cases "axios calls") (auto dest: spec [of _ calls])
  show ?case
  proof (cases "js_lt retries maxR")
    case True
    then have "makeRequest axios maxR retries calls = makeRequest axios maxR (retries + 1) (Suc calls)"
      using e by (subst makeRequest.simps) simp
    then show ?thesis using "1.IH" [OF e True "1.prems"] by simp
  next
    case False
    then show ?thesis using e by (auto simp: makeRequest_give_up)
  qed
qed

lemma makeRequest_transport_failure:
  assumes "\<forall>i. \<exists>msg. axios i = Inl \<lparr>message = msg, response = None\<rparr>"
  shows "\<exists>i msg r'. makeRequest axios mx r c
                       = (Inl \<lparr>message = msg, response = None\<rparr>, r', Suc i)
                     \<and> axios i = Inl \<lparr>message = msg, response = None\<rparr>"
proof -
  have "\<forall>i. isl (axios i)"
  proof
    fix i
    from assms obtain msg where "axios i = Inl \<lparr>message = msg, response = None\<rparr>" by blast
    then show "isl (axios i)" by simp
  qed
  then obtain i err r' where m: "makeRequest axios mx r c = (Inl err, r', Suc i)"
    and a: "axios i = Inl err"
    using makeRequest_all_fail [of axios mx r c] by blast
  from assms obtain msg where "axios i = Inl \<lparr>message = msg, response = None\<rparr>" by blast
  with a m show ?thesis by auto
qed

subsection \<open>Successful fetches\<close>

text \<open>
  Claim C3, as amended. For every successful stream-mode fetch (the route parameter
  decodes to a valid URL, the request is not an API request, and the fetcher returns a
  response), the client response has status 200, the default of the response object: the
  success path never copies the upstream status. The headers applied are the upstream
  headers without the entries named in the filter list, so \<^verbatim>\<open>set-cookie\<close> is absent
  whenever the filter list names it, as the default list does. The upstream bytes are
  piped to the client.
\<close>

theorem proxy_stream_success:
  assumes "decodeURIComponent (encodedUrl req) = Inr t"
    and "isValidUrl URL e t"
    and "\<not> isApi t req"
    and "makeRequest (axios_stream (axios_request_of t req)) (maxRetries cfg) 0 0
           = (Inr resp, r, n)"
  shows "fst (proxy_handler URL decodeURIComponent cfg e axios_json axios_stream req)
           = \<lparr>statusCode = 200,
              res_headers = sanitize (sensitiveHeaders e) (headers resp),
              res_body = Some (Piped (data resp))\<rparr>
         \<and> (''set-cookie'' \<in> set (sensitiveHeaders e) \<longrightarrow>
              res_headers (fst (proxy_handler URL decodeURIComponent cfg e axios_json axios_stream req))
                ''set-cookie'' = None)"
  using proxy_handler_stream_ok
          [where decodeURIComponent = decodeURIComponent and req = req
             and axios_stream = axios_stream and axios_json = axios_json, OF assms]
  by (simp add: sanitize_apply)

theorem proxy_stream_success_witness:
  "fst (proxy_handler sample_URL decode_plain sample_config default_env
          json_down video_206 video_request)
     = \<lparr>statusCode = 200,
        res_headers = [''content-type'' \<mapsto> ''video/mp4''],
        res_body = Some (Piped ''bytes'')\<rparr>"
proof -
  let ?rq = "axios_request_of ''http://example.com/video.mp4'' video_request"
  let ?resp = "\<lparr>status = 206,
                 headers = [''content-type'' \<mapsto> ''video/mp4'', ''set-cookie'' \<mapsto> ''sid=1''],
                 data = ''bytes''\<rparr> :: bytes upstream_response"
  have fetch: "makeRequest (video_206 ?rq) (maxRetries sample_config) 0 0 = (Inr ?resp, 0, 1)"
    by (simp add: makeRequest_success video_206_def)
  have dec: "decode_plain (encodedUrl video_request) = Inr ''http://example.com/video.mp4''"
    by (simp add: decode_plain_def video_encoded)
  have "sanitize (sensitiveHeaders default_env) (headers ?resp) = [''content-type'' \<mapsto> ''video/mp4'']"
    by (rule ext) (simp add: sanitize_apply sensitiveHeaders_default)
  with proxy_stream_success
         [where decodeURIComponent = decode_plain and req = video_request and axios_json = json_down
            and axios_stream = video_206, OF dec video_valid video_not_api fetch]
  show ?thesis by simp
qed

text \<open>
  Claim C3 as stated fails: for the video request of the spec's scenario, with an
  upstream that answers 206, the fetcher returns the 206 response and the client response
  has status 200.
\<close>

theorem proxy_stream_status_counterexample:
  "makeRequest (video_206 (axios_request_of ''http://example.com/video.mp4'' video_request))
       (maxRetries sample_config) 0 0
     = (Inr \<lparr>status = 206,
              headers = [''content-type'' \<mapsto> ''video/mp4'', ''set-cookie'' \<mapsto> ''sid=1''],
              data = ''bytes''\<rparr>, 0, 1)
   \<and> statusCode (fst (proxy_handler sample_URL decode_plain sample_config default_env
                         json_down video_206 video_request)) = 200"
proof -
  let ?rq = "axios_request_of ''http://example.com/video.mp4'' video_request"
  let ?resp = "\<lparr>status = 206,
                 headers = [''content-type'' \<mapsto> ''video/mp4'', ''set-cookie'' \<mapsto> ''sid=1''],
                 data = ''bytes''\<rparr> :: bytes upstream_response"
  have fetch: "makeRequest (video_206 ?rq) (maxRetries sample_config) 0 0 = (Inr ?resp, 0, 1)"
    by (simp add: makeRequest_success video_206_def)
  have "decode_plain (encodedUrl video_request) = Inr ''http://example.com/video.mp4''"
    by (simp add: decode_plain_def video_encoded)
  from proxy_handler_stream_ok
         [where decodeURIComponent = decode_plain and req = video_request and axios_json = json_down
            and axios_stream = video_206, OF this video_valid video_not_api fetch] fetch
  show ?thesis by simp
qed

text \<open>
  Claim C9. For every successful json-mode fetch, the client response has status 200,
  whatever status the upstream response carries, and the parsed body is sent as the JSON
  document.
\<close>

theorem proxy_json_success:
  assumes "decodeURIComponent (encodedUrl req) = Inr t"
    and "isValidUrl URL e t"
    and "isApi t req"
    and "makeRequest (axios_json (axios_request_of t req)) (maxRetries cfg) 0 0
           = (Inr resp, r, n)"
  shows "statusCode (fst (proxy_handler URL decodeURIComponent cfg e axios_json axios_stream req)) = 200
         \<and> res_body (fst (proxy_handler URL decodeURIComponent cfg e axios_json axios_stream req))
             = Some (Json (data resp))"
  using assms by (simp add: proxy_handler_def res_set_res0 res_json_def)

theorem proxy_json_success_witness:
  "statusCode (fst (proxy_handler sample_URL decode_plain sample_config default_env
                      json_201 stream_down api_request)) = 200
   \<and> res_body (fst (proxy_handler sample_URL decode_plain sample_config default_env
                      json_201 stream_down api_request))
       = Some (Json (JObj [(''code'', JNum 1)]))"
proof -
  let ?rq = "axios_request_of ''http://example.com/api.php/provide/vod/?ac=list'' api_request"
  let ?resp = "\<lparr>status = 201, headers = [''set-cookie'' \<mapsto> ''sid=1''],
                 data = JObj [(''code'', JNum 1)]\<rparr> :: jsval upstream_response"
  have fetch: "makeRequest (json_201 ?rq) (maxRetries sample_config) 0 0 = (Inr ?resp, 0, 1)"
    by (simp add: makeRequest_success json_201_def)
  have dec: "decode_plain (encodedUrl api_request)
               = Inr ''http://example.com/api.php/provide/vod/?ac=list''"
    by (simp add: decode_plain_def api_encoded)
  from proxy_json_success
         [where decodeURIComponent = decode_plain and req = api_request and axios_json = json_201
            and axios_stream = stream_down, OF dec api_valid api_is_api fetch]
  show ?thesis by simp
qed

subsection \<open>Rejections and faults\<close>

text \<open>
  Claim C6. For every request whose target URL fails validation, the client receives
  status 400 and no outbound request is issued. For every request with a valid target
  for which every attempt fails without an upstream response, the client receives status
  500 with the failure text followed by the message of the last attempt's error, one
  request after the index \<open>i\<close> of that attempt.
\<close>

theorem proxy_rejection_and_exhaustion:
  assumes "decodeURIComponent (encodedUrl req) = Inr t"
  shows "(\<not> isValidUrl URL e t \<longrightarrow>
            proxy_handler URL decodeURIComponent cfg e axios_json axios_stream req
              = (\<lparr>statusCode = 400, res_headers = Map.empty,
                  res_body = Some (Sent (JStr invalid_url_text))\<rparr>, 0))
         \<and> (isValidUrl URL e t
              \<and> (\<forall>i. \<exists>msg. axios_json (axios_request_of t req) i
                               = Inl \<lparr>message = msg, response = None\<rparr>)
              \<and> (\<forall>i. \<exists>msg. axios_stream (axios_request_of t req) i
                               = Inl \<lparr>message = msg, response = None\<rparr>)
            \<longrightarrow> (\<exists>i msg.
                   (if isApi t req
                    then axios_json (axios_request_of t req) i = Inl \<lparr>message = msg, response = None\<rparr>
                    else axios_stream (axios_request_of t req) i = Inl \<lparr>message = msg, response = None\<rparr>)
                   \<and> proxy_handler URL decodeURIComponent cfg e axios_json axios_stream req
                       = (\<lparr>statusCode = 500, res_headers = Map.empty,
                           res_body = Some (Sent (JStr (request_failed_prefix @ msg)))\<rparr>, Suc i)))"
proof (intro conjI impI)
  assume "\<not> isValidUrl URL e t"
  with assms show "proxy_handler URL decodeURIComponent cfg e axios_json axios_stream req
              = (\<lparr>statusCode = 400, res_headers = Map.empty,
                  res_body = Some (Sent (JStr invalid_url_text))\<rparr>, 0)"
    by (rule proxy_handler_invalid)
next
  let ?rq = "axios_request_of t req"
  assume h: "isValidUrl URL e t
              \<and> (\<forall>i. \<exists>msg. axios_json ?rq i = Inl \<lparr>message = msg, response = None\<rparr>)
              \<and> (\<forall>i. \<exists>msg. axios_stream ?rq i = Inl \<lparr>message = msg, response = None\<rparr>)"
  show "\<exists>i msg.
          (if isApi t req
           then axios_json ?rq i = Inl \<lparr>message = msg, response = None\<rparr>
           else axios_stream ?rq i = Inl \<lparr>message = msg, response = None\<rparr>)
          \<and> proxy_handler URL decodeURIComponent cfg e axios_json axios_stream req
              = (\<lparr>statusCode = 500, res_headers = Map.empty,
                  res_body = Some (Sent (JStr (request_failed_prefix @ msg)))\<rparr>, Suc i)"
  proof (cases "isApi t req")
    case True
    from h obtain i msg r' where
      "makeRequest (axios_json ?rq) (maxRetries cfg) 0 0
         = (Inl \<lparr>message = msg, response = None\<rparr>, r', Suc i)"
      and "axios_json ?rq i = Inl \<lparr>message = msg, response = None\<rparr>"
      using makeRequest_transport_failure [of "axios_json ?rq" "maxRetries cfg" 0 0] by blast
    with True h assms show ?thesis
      using proxy_handler_json_transport [of decodeURIComponent req t URL e axios_json cfg msg r' "Suc i" axios_stream]
      by auto
  next
    case False
    from h obtain i msg r' where
      "makeRequest (axios_stream ?rq) (maxRetries cfg) 0 0
         = (Inl \<lparr>message = msg, response = None\<rparr>, r', Suc i)"
      and "axios_stream ?rq i = Inl \<lparr>message = msg, response = None\<rparr>"
      using makeRequest_transport_failure [of "axios_stream ?rq" "maxRetries cfg" 0 0] by blast
    with False h assms show ?thesis
      using proxy_handler_stream_transport [of decodeURIComponent req t URL e axios_stream cfg msg r' "Suc i" axios_json]
      by auto
  qed
qed

theorem proxy_rejection_and_exhaustion_witness:
  "proxy_handler sample_URL decode_plain sample_config default_env json_down stream_down
       loopback_request
     = (\<lparr>statusCode = 400, res_headers = Map.empty,
         res_body = Some (Sent (JStr invalid_url_text))\<rparr>, 0)
   \<and> (\<exists>i. proxy_handler sample_URL decode_plain sample_config default_env json_down stream_down
               video_request
            = (\<lparr>statusCode = 500, res_headers = Map.empty,
                res_body = Some (Sent (JStr (request_failed_prefix @ ''timeout of 5000ms exceeded'')))\<rparr>,
               Suc i))"
proof -
  have d1: "decode_plain (encodedUrl loopback_request) = Inr ''http://127.0.0.1/x''"
    by (simp add: decode_plain_def loopback_encoded)
  have d2: "decode_plain (encodedUrl video_request) = Inr ''http://example.com/video.mp4''"
    by (simp add: decode_plain_def video_encoded)
  have "proxy_handler sample_URL decode_plain sample_config default_env json_down stream_down
            loopback_request
          = (\<lparr>statusCode = 400, res_headers = Map.empty,
              res_body = Some (Sent (JStr invalid_url_text))\<rparr>, 0)"
    using proxy_rejection_and_exhaustion
            [where decodeURIComponent = decode_plain and req = loopback_request
               and URL = sample_URL and e = default_env, OF d1]
      loopback_invalid by simp
  moreover have "\<exists>i. proxy_handler sample_URL decode_plain sample_config default_env json_down
                        stream_down video_request
            = (\<lparr>statusCode = 500, res_headers = Map.empty,
                res_body = Some (Sent (JStr (request_failed_prefix @ ''timeout of 5000ms exceeded'')))\<rparr>,
               Suc i)"
    using proxy_rejection_and_exhaustion
            [where decodeURIComponent = decode_plain and req = video_request
               and URL = sample_URL and e = default_env and axios_json = json_down
               and axios_stream = stream_down and cfg = sample_config, OF d2]
      video_valid video_not_api
    by (auto simp: json_down_def stream_down_def)
  ultimately show ?thesis by simp
qed

text \<open>
  Claim C8, as amended. The statement covers every fault the fetcher surfaces that carries
  an upstream response with a non-zero status and whose body is a stream (stream mode) or a
  parsed value without a truthy \<^verbatim>\<open>pipe\<close> property (json mode). For each of them the client
  receives that upstream status. A stream is piped through as it is. A parsed body is sent
  as it is when it is truthy, and the generic failure text is sent in its place when it is
  falsy: absent, \<^verbatim>\<open>null\<close>, \<^verbatim>\<open>false\<close>, \<^verbatim>\<open>0\<close> or the empty string. Nothing is stated about a
  parsed body that carries a truthy \<^verbatim>\<open>pipe\<close> property.
\<close>

theorem proxy_upstream_status_fault:
  assumes "decodeURIComponent (encodedUrl req) = Inr t" and "isValidUrl URL e t"
  shows "(\<not> isApi t req
            \<and> makeRequest (axios_stream (axios_request_of t req)) (maxRetries cfg) 0 0
                = (Inl serr, sr, sn)
            \<and> response serr = Some sresp \<and> status sresp \<noteq> 0
          \<longrightarrow> fst (proxy_handler URL decodeURIComponent cfg e axios_json axios_stream req)
                = \<lparr>statusCode = status sresp, res_headers = Map.empty,
                   res_body = Some (Piped (data sresp))\<rparr>)
         \<and> (isApi t req
              \<and> makeRequest (axios_json (axios_request_of t req)) (maxRetries cfg) 0 0
                  = (Inl jerr, jr, jn)
              \<and> response jerr = Some jresp \<and> status jresp \<noteq> 0
              \<and> \<not> truthy (pipe_prop (data jresp))
            \<longrightarrow> fst (proxy_handler URL decodeURIComponent cfg e axios_json axios_stream req)
                  = \<lparr>statusCode = status jresp, res_headers = Map.empty,
                     res_body = Some (Sent (if truthy (data jresp) then data jresp
                                            else JStr proxy_failed_text))\<rparr>)"
  using assms
  by (auto simp: proxy_handler_json_fault proxy_handler_stream_fault status_or_500_def)

theorem proxy_upstream_status_fault_witness:
  "fst (proxy_handler sample_URL decode_plain sample_config default_env
          json_404_object stream_404 video_request)
     = \<lparr>statusCode = 404, res_headers = Map.empty, res_body = Some (Piped ''gone'')\<rparr>
   \<and> fst (proxy_handler sample_URL decode_plain sample_config default_env
            json_404_object stream_404 api_request)
       = \<lparr>statusCode = 404, res_headers = Map.empty,
          res_body = Some (Sent (JObj [(''msg'', JStr ''not found'')]))\<rparr>"
proof -
  let ?sresp = "\<lparr>status = 404, headers = Map.empty, data = ''gone''\<rparr> :: bytes upstream_response"
  let ?serr = "\<lparr>message = ''Request failed with status code 404'', response = Some ?sresp\<rparr>"
  let ?jresp = "\<lparr>status = 404, headers = Map.empty,
                  data = JObj [(''msg'', JStr ''not found'')]\<rparr> :: jsval upstream_response"
  let ?jerr = "\<lparr>message = ''Request failed with status code 404'', response = Some ?jresp\<rparr>"
  have d1: "decode_plain (encodedUrl video_request) = Inr ''http://example.com/video.mp4''"
    by (simp add: decode_plain_def video_encoded)
  have d2: "decode_plain (encodedUrl api_request)
               = Inr ''http://example.com/api.php/provide/vod/?ac=list''"
    by (simp add: decode_plain_def api_encoded)
  have "fst (proxy_handler sample_URL decode_plain sample_config default_env
          json_404_object stream_404 video_request)
     = \<lparr>statusCode = 404, res_headers = Map.empty, res_body = Some (Piped ''gone'')\<rparr>"
    using proxy_upstream_status_fault
            [where decodeURIComponent = decode_plain and req = video_request
               and axios_json = json_404_object and axios_stream = stream_404
               and cfg = sample_config and serr = ?serr and sresp = ?sresp
               and sr = 2 and sn = 3, OF d1 video_valid]
    by (simp add: video_not_api sample_maxRetries stream_404_fetch)
  moreover have "fst (proxy_handler sample_URL decode_plain sample_config default_env
            json_404_object stream_404 api_request)
       = \<lparr>statusCode = 404, res_headers = Map.empty,
          res_body = Some (Sent (JObj [(''msg'', JStr ''not found'')]))\<rparr>"
    using proxy_upstream_status_fault
            [where decodeURIComponent = decode_plain and req = api_request
               and axios_json = json_404_object and axios_stream = stream_404
               and cfg = sample_config and jerr = ?jerr and jresp = ?jresp
               and jr = 2 and jn = 3, OF d2 api_valid]
    by (simp add: api_is_api sample_maxRetries json_404_object_fetch)
  ultimately show ?thesis by simp
qed

text \<open>
  Claim C8 as stated fails: an upstream 404 whose JSON body is \<^verbatim>\<open>0\<close>, a body that is not
  empty, reaches the client with status 404 and the generic failure text in place of the
  body.
\<close>

theorem proxy_fault_body_counterexample:
  "fst (proxy_handler sample_URL decode_plain sample_config default_env
          json_404_zero stream_down api_request)
     = \<lparr>statusCode = 404, res_headers = Map.empty,
        res_body = Some (Sent (JStr proxy_failed_text))\<rparr>
   \<and> res_body (fst (proxy_handler sample_URL decode_plain sample_config default_env
                      json_404_zero stream_down api_request))
       \<noteq> Some (Sent (JNum 0))"
proof -
  have dec: "decode_plain (encodedUrl api_request)
               = Inr ''http://example.com/api.php/provide/vod/?ac=list''"
    by (simp add: decode_plain_def api_encoded)
  show ?thesis
    using proxy_handler_json_fault
            [where decodeURIComponent = decode_plain and req = api_request
               and axios_json = json_404_zero and axios_stream = stream_down
               and cfg = sample_config, OF dec api_valid api_is_api]
    by (simp add: sample_maxRetries json_404_zero_fetch status_or_500_def)
qed

section \<open>Properties of the aggregation routes\<close>

lemma search_apiUrl_composed:
  "search_apiUrl sites acfg q
     = resolved_base sites q @ search_path acfg @ encodeURIComponent (param_or_empty (wd q))"
  by (simp add: search_apiUrl_def resolved_base_def split: option.splits)

lemma detail_apiUrl_composed:
  "detail_apiUrl sites acfg q = resolved_base sites q @ detail_path acfg @ param_or_empty (id_q q)"
  by (simp add: detail_apiUrl_def resolved_base_def split: option.splits)

lemma encodeURIComponent_empty: "encodeURIComponent [] = []"
  by (simp add: encodeURIComponent_def)

lemma sample_base: "resolved_base sample_sites no_params = ''https://h.example''"
  by (simp add: resolved_base_def no_params_def supplied_def known_site_def sample_sites_def)

lemma sample_search_target:
  "proxy_target sample_config (''https://h.example'' @ ''/vod/?wd='')
     = ''http://localhost:8080/proxy/https%3A%2F%2Fh.example%2Fvod%2F%3Fwd%3D''"
  by (simp add: proxy_target_def sample_config_def encodeURIComponent_def encode_byte_def
      unreserved_def hex_digit_def)

lemma sample_detail_target:
  "proxy_target sample_config (''https://h.example'' @ ''/vod/?ids='')
     = ''http://localhost:8080/proxy/https%3A%2F%2Fh.example%2Fvod%2F%3Fids%3D''"
  by (simp add: proxy_target_def sample_config_def encodeURIComponent_def encode_byte_def
      unreserved_def hex_digit_def)

text \<open>
  Claim C4. The claim asks that both operations append the URL-encoded query parameter.
  The search route does (\<open>search_apiUrl_composed\<close>); the detail route appends the id as
  it was received. On the request \<^verbatim>\<open>/api/detail?id=1%26ac%3Dlist\<close>, whose id is
  \<^verbatim>\<open>1&ac=list\<close>, the composed URL ends in \<^verbatim>\<open>ids=1&ac=list\<close>, where the claim asks for
  \<^verbatim>\<open>ids=1%26ac%3Dlist\<close>.
\<close>

theorem detail_id_not_encoded:
  "detail_apiUrl sample_sites sample_api_config detail_query
     = ''https://h.example/vod/?ids=1&ac=list''
   \<and> resolved_base sample_sites detail_query @ detail_path sample_api_config
         @ encodeURIComponent ''1&ac=list''
       = ''https://h.example/vod/?ids=1%26ac%3Dlist''"
  by (simp add: detail_apiUrl_def resolved_base_def detail_query_def supplied_def known_site_def
      sample_sites_def sample_api_config_def param_or_empty_def encodeURIComponent_def
      encode_byte_def unreserved_def hex_digit_def)

text \<open>
  Claim C7. For every failure of the loop-back call, the search route and the detail
  route answer with status 500 and the JSON document
  \<^verbatim>\<open>{code: 500, msg: <text of the operation>, error: <message of the failure>}\<close>.
\<close>

theorem aggregation_failure_envelope:
  "(axios_get (proxy_target cfg (search_apiUrl sites acfg q)) = Inl err \<longrightarrow>
      fst (api_search sites acfg cfg axios_get q)
        = \<lparr>statusCode = 500, res_headers = Map.empty,
           res_body = Some (Json (JObj [(''code'', JNum 500), (''msg'', JStr api_failed_text),
                                        (''error'', JStr err)]))\<rparr>)
   \<and> (axios_get (proxy_target cfg (detail_apiUrl sites acfg q)) = Inl err \<longrightarrow>
        fst (api_detail sites acfg cfg axios_get q)
          = \<lparr>statusCode = 500, res_headers = Map.empty,
             res_body = Some (Json (JObj [(''code'', JNum 500), (''msg'', JStr detail_failed_text),
                                          (''error'', JStr err)]))\<rparr>)"
  by (simp add: api_search_def api_detail_def envelope_def res_json_def res_status_def res0_def)

theorem aggregation_failure_envelope_witness:
  "fst (api_search sample_sites sample_api_config sample_config loopback_down no_params)
     = \<lparr>statusCode = 500, res_headers = Map.empty,
        res_body = Some (Json (JObj [(''code'', JNum 500), (''msg'', JStr api_failed_text),
                                     (''error'', JStr ''connect ECONNREFUSED 127.0.0.1:8080'')]))\<rparr>
   \<and> fst (api_detail sample_sites sample_api_config sample_config loopback_down detail_query)
       = \<lparr>statusCode = 500, res_headers = Map.empty,
          res_body = Some (Json (JObj [(''code'', JNum 500), (''msg'', JStr detail_failed_text),
                                       (''error'', JStr ''connect ECONNREFUSED 127.0.0.1:8080'')]))\<rparr>"
  using aggregation_failure_envelope
          [of loopback_down sample_config sample_sites sample_api_config no_params
              "''connect ECONNREFUSED 127.0.0.1:8080''"]
        aggregation_failure_envelope
          [of loopback_down sample_config sample_sites sample_api_config detail_query
              "''connect ECONNREFUSED 127.0.0.1:8080''"]
  by (simp add: loopback_down_def)

text \<open>
  Claim C10. When \<^verbatim>\<open>wd\<close> is absent from a search request, or \<^verbatim>\<open>id\<close> from a detail
  request, the parameter is the empty string: the composed URL is the resolved base
  followed by the path template and nothing else, it is the one address the route
  requests through the loop-back call, and the answer of that call is relayed with
  status 200.
\<close>

theorem absent_parameter_defaults:
  "(wd q = None \<longrightarrow>
      search_apiUrl sites acfg q = resolved_base sites q @ search_path acfg @ []
      \<and> snd (api_search sites acfg cfg axios_get q)
          = [proxy_target cfg (resolved_base sites q @ search_path acfg)]
      \<and> (\<forall>d. axios_get (proxy_target cfg (resolved_base sites q @ search_path acfg)) = Inr d \<longrightarrow>
            fst (api_search sites acfg cfg axios_get q)
              = \<lparr>statusCode = 200, res_headers = Map.empty, res_body = Some (Json d)\<rparr>))
   \<and> (id_q q = None \<longrightarrow>
        detail_apiUrl sites acfg q = resolved_base sites q @ detail_path acfg @ []
        \<and> snd (api_detail sites acfg cfg axios_get q)
            = [proxy_target cfg (resolved_base sites q @ detail_path acfg)]
        \<and> (\<forall>d. axios_get (proxy_target cfg (resolved_base sites q @ detail_path acfg)) = Inr d \<longrightarrow>
              fst (api_detail sites acfg cfg axios_get q)
                = \<lparr>statusCode = 200, res_headers = Map.empty, res_body = Some (Json d)\<rparr>))"
  by (auto simp: api_search_def api_detail_def search_apiUrl_composed detail_apiUrl_composed
      param_or_empty_def encodeURIComponent_empty res_json_def res0_def Let_def
      split: sum.splits)

theorem absent_parameter_defaults_witness:
  "snd (api_search sample_sites sample_api_config sample_config loopback_up no_params)
     = [''http://localhost:8080/proxy/https%3A%2F%2Fh.example%2Fvod%2F%3Fwd%3D'']
   \<and> fst (api_search sample_sites sample_api_config sample_config loopback_up no_params)
     = \<lparr>statusCode = 200, res_headers = Map.empty,
        res_body = Some (Json (JObj [(''code'', JNum 200)]))\<rparr>
   \<and> snd (api_detail sample_sites sample_api_config sample_config loopback_up no_params)
     = [''http://localhost:8080/proxy/https%3A%2F%2Fh.example%2Fvod%2F%3Fids%3D'']
   \<and> fst (api_detail sample_sites sample_api_config sample_config loopback_up no_params)
     = \<lparr>statusCode = 200, res_headers = Map.empty,
        res_body = Some (Json (JObj [(''code'', JNum 200)]))\<rparr>"
proof -
  have "wd no_params = None" and "id_q no_params = None" by (simp_all add: no_params_def)
  moreover have "search_path sample_api_config = ''/vod/?wd=''"
    and "detail_path sample_api_config = ''/vod/?ids=''"
    by (simp_all add: sample_api_config_def)
  ultimately show ?thesis
    using absent_parameter_defaults
            [of no_params sample_sites sample_api_config sample_config loopback_up]
      sample_search_target sample_detail_target
    by (simp add: sample_base loopback_up_def)
qed

end
